theory Spec2Isabelle
  imports Main "HOL-Library.Word"
begin

section \<open>The entities a DiffObject points to\<close>

text \<open>
  \<^verbatim>\<open>diff_object.hpp\<close> includes \<^verbatim>\<open>item_type.hpp\<close>, \<^verbatim>\<open>object.hpp\<close>,
  \<^verbatim>\<open>timestamp.hpp\<close> and \<^verbatim>\<open>types.hpp\<close> and only reads six fields of an
  \<^verbatim>\<open>osmium::OSMObject\<close>: \<^verbatim>\<open>type()\<close>, \<^verbatim>\<open>id()\<close>, \<^verbatim>\<open>version()\<close>,
  \<^verbatim>\<open>changeset()\<close>, \<^verbatim>\<open>timestamp()\<close> and \<^verbatim>\<open>visible()\<close>.
\<close>

text \<open>
  Modelled from the spec: \<^verbatim>\<open>osmium::item_type\<close> (item\_type.hpp) is not part of the
  sources at hand; the type tag ranges over Node, Way and Relation.
\<close>

datatype item_type = node | way | relation

text \<open>
  Modelled from the spec: \<^verbatim>\<open>osmium::Timestamp\<close> and \<^verbatim>\<open>osmium::end_of_time()\<close>
  (timestamp.hpp) are not part of the sources at hand. A timestamp is an instant of a
  bounded, totally ordered clock, and the end of time is the maximum representable
  instant. The clock is an unsigned counter of \<open>LENGTH('w)\<close> bits whose arithmetic wraps
  around; nothing below depends on the width.
\<close>

type_synonym 'w Timestamp = "'w word"

definition end_of_time :: "'w::len Timestamp" where
  "end_of_time = - 1"

text \<open>
  Modelled from the spec: \<^verbatim>\<open>osmium::OSMObject\<close> (object.hpp) and the integer types of
  types.hpp are not part of the sources at hand. The id is numeric; version and
  changeset id are counters that the DiffObject only forwards.
\<close>

type_synonym object_id_type = int
type_synonym object_version_type = nat
type_synonym changeset_id_type = nat

record (overloaded) 'w OSMObject =
  obj_type :: item_type
  obj_id :: object_id_type
  obj_version :: object_version_type
  obj_changeset :: changeset_id_type
  obj_timestamp :: "'w Timestamp"
  obj_visible :: bool

text \<open>
  A DiffObject does not own the entities: it keeps three \<^verbatim>\<open>const OSMObject*\<close>.
  \<^verbatim>\<open>first()\<close> and \<^verbatim>\<open>last()\<close> compare these pointers, not the objects behind them,
  so the model keeps addresses and a store that maps every address to the entity living
  there. A C++ reference always designates an object, hence the store is total;
  \<^verbatim>\<open>nullptr\<close> is \<open>None\<close>.
\<close>

type_synonym addr = nat
type_synonym 'w store = "addr \<Rightarrow> 'w OSMObject"

section \<open>Assertions\<close>

text \<open>
  The three \<^verbatim>\<open>assert\<close> expressions of the header, in a build that checks them. A
  failing assertion aborts the program; it is the \<open>Inl\<close> branch of every result.
\<close>

datatype failure =
    TypeAssertion       \<comment> \<open>\<^verbatim>\<open>prev.type() == curr.type() && curr.type() == next.type()\<close>\<close>
  | IdAssertion         \<comment> \<open>\<^verbatim>\<open>prev.id() == curr.id() && curr.id() == next.id()\<close>\<close>
  | NonEmptyAssertion   \<comment> \<open>\<^verbatim>\<open>m_prev && m_curr && m_next\<close>\<close>

definition bind_r :: "failure + 'a \<Rightarrow> ('a \<Rightarrow> failure + 'b) \<Rightarrow> failure + 'b" where
  "bind_r m f = (case m of Inl e \<Rightarrow> Inl e | Inr v \<Rightarrow> f v)"

text \<open>The short-circuit operators \<^verbatim>\<open>&&\<close> and \<^verbatim>\<open>||\<close> over calls that may abort.\<close>

definition and_also :: "failure + bool \<Rightarrow> failure + bool \<Rightarrow> failure + bool" where
  "and_also a b = bind_r a (\<lambda>x. if x then b else Inr False)"

definition or_else :: "failure + bool \<Rightarrow> failure + bool \<Rightarrow> failure + bool" where
  "or_else a b = bind_r a (\<lambda>x. if x then Inr True else b)"

text \<open>A comparison of the results of two calls.\<close>

definition compare :: "('a \<Rightarrow> 'a \<Rightarrow> bool) \<Rightarrow> failure + 'a \<Rightarrow> failure + 'a \<Rightarrow> failure + bool" where
  "compare rel a b = bind_r a (\<lambda>x. bind_r b (\<lambda>y. Inr (rel x y)))"

section \<open>class DiffObject\<close>

record DiffObject =
  m_prev :: "addr option"
  m_curr :: "addr option"
  m_next :: "addr option"

text \<open>\<^verbatim>\<open>DiffObject() noexcept = default\<close>: the three members keep their initialiser \<^verbatim>\<open>nullptr\<close>.\<close>

definition DiffObject_default :: DiffObject where
  "DiffObject_default = \<lparr>m_prev = None, m_curr = None, m_next = None\<rparr>"

text \<open>
  \<^verbatim>\<open>DiffObject(prev, curr, next)\<close>: the members take the addresses of the three
  references, then the two assertions run in their order.
\<close>

definition DiffObject_init :: "'w store \<Rightarrow> addr \<Rightarrow> addr \<Rightarrow> addr \<Rightarrow> failure + DiffObject" where
  "DiffObject_init h prv cur nxt =
     (if \<not> (obj_type (h prv) = obj_type (h cur) \<and> obj_type (h cur) = obj_type (h nxt))
      then Inl TypeAssertion
      else if \<not> (obj_id (h prv) = obj_id (h cur) \<and> obj_id (h cur) = obj_id (h nxt))
      then Inl IdAssertion
      else Inr \<lparr>m_prev = Some prv, m_curr = Some cur, m_next = Some nxt\<rparr>)"

definition DiffObject_empty :: "DiffObject \<Rightarrow> bool" where
  "DiffObject_empty d = (m_prev d = None)"

text \<open>
  \<^verbatim>\<open>assert(m_prev && m_curr && m_next)\<close>, the first statement of every other member
  function. Where it passes, the three pointers can be dereferenced.
\<close>

definition assert_nonempty :: "DiffObject \<Rightarrow> failure + (addr \<times> addr \<times> addr)" where
  "assert_nonempty d =
     (case m_prev d of None \<Rightarrow> Inl NonEmptyAssertion | Some p \<Rightarrow>
      (case m_curr d of None \<Rightarrow> Inl NonEmptyAssertion | Some c \<Rightarrow>
       (case m_next d of None \<Rightarrow> Inl NonEmptyAssertion | Some n \<Rightarrow> Inr (p, c, n))))"

definition DiffObject_prev :: "DiffObject \<Rightarrow> failure + addr" where
  "DiffObject_prev d = bind_r (assert_nonempty d) (\<lambda>(p, c, n). Inr p)"

definition DiffObject_curr :: "DiffObject \<Rightarrow> failure + addr" where
  "DiffObject_curr d = bind_r (assert_nonempty d) (\<lambda>(p, c, n). Inr c)"

definition DiffObject_next :: "DiffObject \<Rightarrow> failure + addr" where
  "DiffObject_next d = bind_r (assert_nonempty d) (\<lambda>(p, c, n). Inr n)"

definition DiffObject_first :: "DiffObject \<Rightarrow> failure + bool" where
  "DiffObject_first d = bind_r (assert_nonempty d) (\<lambda>(p, c, n). Inr (p = c))"

definition DiffObject_last :: "DiffObject \<Rightarrow> failure + bool" where
  "DiffObject_last d = bind_r (assert_nonempty d) (\<lambda>(p, c, n). Inr (c = n))"

definition DiffObject_type :: "'w store \<Rightarrow> DiffObject \<Rightarrow> failure + item_type" where
  "DiffObject_type h d = bind_r (assert_nonempty d) (\<lambda>(p, c, n). Inr (obj_type (h c)))"

definition DiffObject_id :: "'w store \<Rightarrow> DiffObject \<Rightarrow> failure + object_id_type" where
  "DiffObject_id h d = bind_r (assert_nonempty d) (\<lambda>(p, c, n). Inr (obj_id (h c)))"

definition DiffObject_version :: "'w store \<Rightarrow> DiffObject \<Rightarrow> failure + object_version_type" where
  "DiffObject_version h d = bind_r (assert_nonempty d) (\<lambda>(p, c, n). Inr (obj_version (h c)))"

definition DiffObject_changeset :: "'w store \<Rightarrow> DiffObject \<Rightarrow> failure + changeset_id_type" where
  "DiffObject_changeset h d = bind_r (assert_nonempty d) (\<lambda>(p, c, n). Inr (obj_changeset (h c)))"

definition DiffObject_start_time :: "'w store \<Rightarrow> DiffObject \<Rightarrow> failure + 'w Timestamp" where
  "DiffObject_start_time h d = bind_r (assert_nonempty d) (\<lambda>(p, c, n). Inr (obj_timestamp (h c)))"

text \<open>\<^verbatim>\<open>return last() ? osmium::end_of_time() : m_next->timestamp();\<close>\<close>

definition DiffObject_end_time :: "'w::len store \<Rightarrow> DiffObject \<Rightarrow> failure + 'w Timestamp" where
  "DiffObject_end_time h d =
     bind_r (assert_nonempty d) (\<lambda>(p, c, n).
       bind_r (DiffObject_last d) (\<lambda>l.
         Inr (if l then end_of_time else obj_timestamp (h n))))"

text \<open>
  \<^verbatim>\<open>return start_time() < to &&
         ((start_time() != end_time() && end_time() >  from) ||
          (start_time() == end_time() && end_time() >= from));\<close>
\<close>

definition DiffObject_is_between ::
  "'w::len store \<Rightarrow> DiffObject \<Rightarrow> 'w Timestamp \<Rightarrow> 'w Timestamp \<Rightarrow> failure + bool" where
  "DiffObject_is_between h d from to =
     bind_r (assert_nonempty d) (\<lambda>_.
       and_also (compare (<) (DiffObject_start_time h d) (Inr to))
         (or_else
           (and_also (compare (\<noteq>) (DiffObject_start_time h d) (DiffObject_end_time h d))
                     (compare (>) (DiffObject_end_time h d) (Inr from)))
           (and_also (compare (=) (DiffObject_start_time h d) (DiffObject_end_time h d))
                     (compare (\<ge>) (DiffObject_end_time h d) (Inr from)))))"

text \<open>\<^verbatim>\<open>return start_time() <= timestamp && end_time() > timestamp && m_curr->visible();\<close>\<close>

definition DiffObject_is_visible_at ::
  "'w::len store \<Rightarrow> DiffObject \<Rightarrow> 'w Timestamp \<Rightarrow> failure + bool" where
  "DiffObject_is_visible_at h d timestamp =
     bind_r (assert_nonempty d) (\<lambda>(p, c, n).
       and_also
         (and_also (compare (\<le>) (DiffObject_start_time h d) (Inr timestamp))
                   (compare (>) (DiffObject_end_time h d) (Inr timestamp)))
         (Inr (obj_visible (h c))))"

section \<open>class DiffObjectDerived\<close>

text \<open>
  \<^verbatim>\<open>class Node; class Way; class Relation;\<close> are only declared in this header. A
  \<^verbatim>\<open>const T&\<close> is an address together with its static type \<open>'T\<close>.
\<close>

typedecl Node
typedecl Way
typedecl Relation

datatype 'T cref = Ref (address: addr)

text \<open>\<^verbatim>\<open>static_cast<const T&>\<close> of a reference to the base class: the same object, retyped.\<close>

definition static_cast :: "addr \<Rightarrow> 'T cref" where
  "static_cast a = Ref a"

text \<open>
  \<^verbatim>\<open>DiffObjectDerived<T>\<close> adds no member to its base class: an object of it is its
  \<^verbatim>\<open>DiffObject\<close> subobject, and every member function it does not redefine is the one of
  \<^verbatim>\<open>DiffObject\<close>, called on \<open>base\<close>.
\<close>

datatype 'T DiffObjectDerived = DiffObjectDerived (base: DiffObject)

type_synonym DiffNode = "Node DiffObjectDerived"
type_synonym DiffWay = "Way DiffObjectDerived"
type_synonym DiffRelation = "Relation DiffObjectDerived"

text \<open>
  \<^verbatim>\<open>DiffObjectDerived(const T& prev, const T& curr, const T& next) : DiffObject(prev, curr, next)\<close>
\<close>

definition DiffObjectDerived_init ::
  "'w store \<Rightarrow> 'T cref \<Rightarrow> 'T cref \<Rightarrow> 'T cref \<Rightarrow> failure + 'T DiffObjectDerived" where
  "DiffObjectDerived_init h prv cur nxt =
     bind_r (DiffObject_init h (address prv) (address cur) (address nxt))
       (\<lambda>d. Inr (DiffObjectDerived d))"

definition DiffObjectDerived_prev :: "'T DiffObjectDerived \<Rightarrow> failure + 'T cref" where
  "DiffObjectDerived_prev dd = bind_r (DiffObject_prev (base dd)) (\<lambda>a. Inr (static_cast a))"

definition DiffObjectDerived_curr :: "'T DiffObjectDerived \<Rightarrow> failure + 'T cref" where
  "DiffObjectDerived_curr dd = bind_r (DiffObject_curr (base dd)) (\<lambda>a. Inr (static_cast a))"

definition DiffObjectDerived_next :: "'T DiffObjectDerived \<Rightarrow> failure + 'T cref" where
  "DiffObjectDerived_next dd = bind_r (DiffObject_next (base dd)) (\<lambda>a. Inr (static_cast a))"

section \<open>Version chains used as concrete inputs\<close>

definition entity ::
  "object_id_type \<Rightarrow> object_version_type \<Rightarrow> 'w Timestamp \<Rightarrow> bool \<Rightarrow> 'w OSMObject" where
  "entity i v t vis =
     \<lparr>obj_type = way, obj_id = i, obj_version = v, obj_changeset = 1000 + v,
      obj_timestamp = t, obj_visible = vis\<rparr>"

text \<open>
  Three versions of one way: v1 at instant 100, v2 at instant 150, and v3, a deletion
  at the same instant 150; they live at the addresses 1, 2 and 3.
\<close>

definition chain_store :: "32 store" where
  "chain_store a =
     (if a = 1 then entity 17 1 100 True
      else if a = 2 then entity 17 2 150 True
      else entity 17 3 150 False)"

text \<open>
  The pointers of three positions in a chain: a first version at address 1 followed by
  a version at address 2; a middle version at address 2 between 1 and 3; a last version
  at address 3 preceded by 2.
\<close>

definition triple_v1 :: DiffObject where
  "triple_v1 = \<lparr>m_prev = Some 1, m_curr = Some 1, m_next = Some 2\<rparr>"

definition triple_v2 :: DiffObject where
  "triple_v2 = \<lparr>m_prev = Some 1, m_curr = Some 2, m_next = Some 3\<rparr>"

definition triple_v3 :: DiffObject where
  "triple_v3 = \<lparr>m_prev = Some 2, m_curr = Some 3, m_next = Some 3\<rparr>"

text \<open>Two entities with different ids.\<close>

definition mixed_store :: "32 store" where
  "mixed_store a = (if a = 1 then entity 17 1 100 True else entity 18 1 150 True)"

section \<open>Evaluating the member functions of a constructed DiffObject\<close>

lemmas res_defs = bind_r_def and_also_def or_else_def compare_def

lemmas chain_defs = chain_store_def entity_def triple_v1_def triple_v2_def triple_v3_def

lemmas eval_defs =
  DiffObject_init_def DiffObject_start_time_def DiffObject_end_time_def DiffObject_last_def
  DiffObject_is_between_def DiffObject_is_visible_at_def assert_nonempty_def res_defs

lemmas accessor_defs =
  DiffObject_prev_def DiffObject_curr_def DiffObject_next_def DiffObject_first_def
  DiffObject_type_def DiffObject_id_def DiffObject_version_def DiffObject_changeset_def

lemma init_Inr:
  "DiffObject_init h prv cur nxt = Inr d \<Longrightarrow>
   d = \<lparr>m_prev = Some prv, m_curr = Some cur, m_next = Some nxt\<rparr>"
  by (auto simp: DiffObject_init_def split: if_splits)

lemma init_nonempty:
  "DiffObject_init h prv cur nxt = Inr d \<Longrightarrow> assert_nonempty d = Inr (prv, cur, nxt)"
  by (auto simp: assert_nonempty_def dest: init_Inr)

lemma start_time_init:
  "DiffObject_init h prv cur nxt = Inr d \<Longrightarrow>
   DiffObject_start_time h d = Inr (obj_timestamp (h cur))"
  by (simp add: DiffObject_start_time_def bind_r_def init_nonempty)

lemma last_init:
  "DiffObject_init h prv cur nxt = Inr d \<Longrightarrow> DiffObject_last d = Inr (cur = nxt)"
  by (simp add: DiffObject_last_def bind_r_def init_nonempty)

lemma end_time_init:
  "DiffObject_init h prv cur nxt = Inr d \<Longrightarrow>
   DiffObject_end_time h d = Inr (if cur = nxt then end_of_time else obj_timestamp (h nxt))"
  by (simp add: DiffObject_end_time_def bind_r_def init_nonempty last_init)

lemma is_between_eval:
  assumes "DiffObject_start_time h d = Inr s" and "DiffObject_end_time h d = Inr e"
    and "assert_nonempty d = Inr x"
  shows "DiffObject_is_between h d from to =
         Inr (s < to \<and> ((s \<noteq> e \<and> e > from) \<or> (s = e \<and> e \<ge> from)))"
  using assms by (simp add: DiffObject_is_between_def res_defs)

lemma is_visible_at_eval:
  assumes "DiffObject_start_time h d = Inr s" and "DiffObject_end_time h d = Inr e"
    and "assert_nonempty d = Inr (p, c, n)"
  shows "DiffObject_is_visible_at h d t = Inr (s \<le> t \<and> e > t \<and> obj_visible (h c))"
  using assms by (simp add: DiffObject_is_visible_at_def res_defs)

lemma end_of_time_max: "(t :: 'w::len word) \<le> end_of_time"
  by (simp add: end_of_time_def)

lemma end_of_time_strict: "(t :: 'w::len word) \<noteq> end_of_time \<Longrightarrow> t < end_of_time"
  using end_of_time_max [of t] by simp

section \<open>is\_between\<close>

text \<open>
  Claim C1. On every DiffObject built by the three-argument constructor, and for all
  timestamps \<open>from\<close> and \<open>to\<close>, \<^verbatim>\<open>start_time()\<close> and \<^verbatim>\<open>end_time()\<close> return values
  \<open>s\<close> and \<open>e\<close>, and \<^verbatim>\<open>is_between(from, to)\<close> returns exactly
  \<open>s < to \<and> ((s \<noteq> e \<and> e > from) \<or> (s = e \<and> e \<ge> from))\<close>: the lower bound is strict
  for \<open>s \<noteq> e\<close> and inclusive exactly when \<open>s = e\<close>.
\<close>

theorem is_between_rule:
  assumes "DiffObject_init h prv cur nxt = Inr d"
  shows "\<exists>s e. DiffObject_start_time h d = Inr s \<and> DiffObject_end_time h d = Inr e \<and>
           DiffObject_is_between h d from to =
             Inr (s < to \<and> ((s \<noteq> e \<and> e > from) \<or> (s = e \<and> e \<ge> from)))"
  using is_between_eval [OF start_time_init [OF assms] end_time_init [OF assms]
      init_nonempty [OF assms]]
    start_time_init [OF assms] end_time_init [OF assms]
  by blast

text \<open>
  The triple of v2 in the chain above: its interval is the single instant 150, which
  lies in the query interval from 150 to 151 and not in the one from 149 to 150.
\<close>

theorem is_between_rule_witness:
  "DiffObject_init chain_store 1 2 3 = Inr triple_v2 \<and>
   DiffObject_start_time chain_store triple_v2 = Inr 150 \<and>
   DiffObject_end_time chain_store triple_v2 = Inr 150 \<and>
   DiffObject_is_between chain_store triple_v2 150 151 = Inr True \<and>
   DiffObject_is_between chain_store triple_v2 149 150 = Inr False"
proof -
  have h: "DiffObject_init chain_store 1 2 3 = Inr triple_v2"
    by (simp add: DiffObject_init_def chain_defs)
  have s: "DiffObject_start_time chain_store triple_v2 = Inr 150"
    by (simp add: DiffObject_start_time_def assert_nonempty_def bind_r_def chain_defs)
  have e: "DiffObject_end_time chain_store triple_v2 = Inr 150"
    by (simp add: DiffObject_end_time_def DiffObject_last_def assert_nonempty_def
        bind_r_def chain_defs)
  from is_between_rule [OF h, of 150 151] is_between_rule [OF h, of 149 150] s e h
  show ?thesis by auto
qed

text \<open>
  Claim C4, as stated, fails. The validity interval of the middle version above is the
  zero-width interval from 150 to 150; it is contained in the query interval from 100 to
  150, and \<^verbatim>\<open>is_between(100, 150)\<close> returns false.
\<close>

theorem is_between_containment_counterexample:
  "DiffObject_init chain_store 1 2 3 = Inr triple_v2 \<and>
   DiffObject_start_time chain_store triple_v2 = Inr 150 \<and>
   DiffObject_end_time chain_store triple_v2 = Inr 150 \<and>
   {150 ..< 150} \<subseteq> {100 ..< (150 :: 32 word)} \<and>
   DiffObject_is_between chain_store triple_v2 100 150 = Inr False"
  by (simp add: eval_defs chain_defs)

text \<open>
  Claim C4, amended. If the validity interval from \<^verbatim>\<open>start_time()\<close> to
  \<^verbatim>\<open>end_time()\<close> is contained in the query interval from \<open>from\<close> to \<open>to\<close> and is
  either non-empty (\<open>s < e\<close>) or of zero width with \<open>from \<le> s < to\<close>, then
  \<^verbatim>\<open>is_between(from, to)\<close> returns true.
\<close>

theorem is_between_containment:
  assumes "DiffObject_init h prv cur nxt = Inr d"
    and "DiffObject_start_time h d = Inr s" and "DiffObject_end_time h d = Inr e"
    and "{s ..< e} \<subseteq> {from ..< to}"
    and "s < e \<or> (s = e \<and> from \<le> s \<and> s < to)"
  shows "DiffObject_is_between h d from to = Inr True"
proof -
  have eq: "DiffObject_is_between h d from to =
            Inr (s < to \<and> ((s \<noteq> e \<and> e > from) \<or> (s = e \<and> e \<ge> from)))"
    by (rule is_between_eval [OF assms(2) assms(3) init_nonempty [OF assms(1)]])
  from assms(5) have "s < to \<and> ((s \<noteq> e \<and> e > from) \<or> (s = e \<and> e \<ge> from))"
  proof
    assume lt: "s < e"
    then have "s \<in> {s ..< e}" by simp
    with assms(4) have "s \<in> {from ..< to}" by blast
    then have "from \<le> s" and "s < to" by simp_all
    with lt show ?thesis by auto
  next
    assume "s = e \<and> from \<le> s \<and> s < to"
    then show ?thesis by auto
  qed
  with eq show ?thesis by simp
qed

text \<open>
  The first version (from 100 to 150) against the query from 100 to 150, and the middle
  version (the instant 150) against the query from 150 to 151.
\<close>

theorem is_between_containment_witness:
  "DiffObject_init chain_store 1 1 2 = Inr triple_v1 \<and>
   DiffObject_start_time chain_store triple_v1 = Inr 100 \<and>
   DiffObject_end_time chain_store triple_v1 = Inr 150 \<and>
   {100 ..< 150} \<subseteq> {100 ..< (150 :: 32 word)} \<and> (100 :: 32 word) < 150 \<and>
   DiffObject_is_between chain_store triple_v1 100 150 = Inr True \<and>
   DiffObject_init chain_store 1 2 3 = Inr triple_v2 \<and>
   DiffObject_start_time chain_store triple_v2 = Inr 150 \<and>
   DiffObject_end_time chain_store triple_v2 = Inr 150 \<and>
   {150 ..< 150} \<subseteq> {150 ..< (151 :: 32 word)} \<and> (150 :: 32 word) \<le> 150 \<and> (150 :: 32 word) < 151 \<and>
   DiffObject_is_between chain_store triple_v2 150 151 = Inr True"
proof -
  have h1: "DiffObject_init chain_store 1 1 2 = Inr triple_v1"
    by (simp add: DiffObject_init_def chain_defs)
  have s1: "DiffObject_start_time chain_store triple_v1 = Inr 100"
    by (simp add: eval_defs chain_defs)
  have e1: "DiffObject_end_time chain_store triple_v1 = Inr 150"
    by (simp add: eval_defs chain_defs)
  have i1: "{100 ..< 150} \<subseteq> {100 ..< (150 :: 32 word)}" by simp
  have c1: "(100 :: 32 word) < 150 \<or> ((100 :: 32 word) = 150 \<and> (100 :: 32 word) \<le> 100 \<and> (100 :: 32 word) < 150)"
    by simp
  have h2: "DiffObject_init chain_store 1 2 3 = Inr triple_v2"
    by (simp add: DiffObject_init_def chain_defs)
  have s2: "DiffObject_start_time chain_store triple_v2 = Inr 150"
    by (simp add: eval_defs chain_defs)
  have e2: "DiffObject_end_time chain_store triple_v2 = Inr 150"
    by (simp add: eval_defs chain_defs)
  have i2: "{150 ..< 150} \<subseteq> {150 ..< (151 :: 32 word)}" by simp
  have c2: "(150 :: 32 word) < 150 \<or> ((150 :: 32 word) = 150 \<and> (150 :: 32 word) \<le> 150 \<and> (150 :: 32 word) < 151)"
    by simp
  from is_between_containment [OF h1 s1 e1 i1 c1] is_between_containment [OF h2 s2 e2 i2 c2]
    h1 s1 e1 h2 s2 e2
  show ?thesis by simp
qed

text \<open>
  Claim C5. Entities carry normal timestamps, which lie strictly below the end of time
  (\<^verbatim>\<open>end_time()\<close> documents the sentinel as larger than any normal timestamp). For
  every DiffObject built by the three-argument constructor that is not the last version
  and whose current and next entity carry the same timestamp \<open>s\<close>, \<^verbatim>\<open>end_time()\<close> is
  \<open>s\<close> as well, \<^verbatim>\<open>is_between(s, s + 1)\<close> returns true for every such normal \<open>s\<close>,
  and \<^verbatim>\<open>is_between(s - 1, s)\<close> returns false.
\<close>

theorem is_between_degenerate:
  assumes "DiffObject_init h prv cur nxt = Inr d"
    and "DiffObject_last d = Inr False"
    and "obj_timestamp (h cur) = obj_timestamp (h nxt)"
    and "DiffObject_start_time h d = Inr s"
  shows "DiffObject_end_time h d = Inr s \<and>
         (s < end_of_time \<longrightarrow> DiffObject_is_between h d s (s + 1) = Inr True) \<and>
         DiffObject_is_between h d (s - 1) s = Inr False"
proof -
  from assms(2) last_init [OF assms(1)] have nl: "cur \<noteq> nxt" by simp
  from assms(4) start_time_init [OF assms(1)] have s: "s = obj_timestamp (h cur)" by simp
  from end_time_init [OF assms(1)] nl assms(3) s
  have e: "DiffObject_end_time h d = Inr s" by simp
  note eq = is_between_eval [OF assms(4) e init_nonempty [OF assms(1)]]
  have up: "s < s + 1" if "s < end_of_time"
  proof (rule ccontr)
    assume "\<not> s < s + 1"
    then have "s + 1 \<le> s" by simp
    then have "s = - 1" by (rule inc_less_eq_triv_imp)
    with that show False by (simp add: end_of_time_def)
  qed
  from e eq up show ?thesis by simp
qed

text \<open>
  The middle version above: \<^verbatim>\<open>is_between(150, 151)\<close> is true and
  \<^verbatim>\<open>is_between(149, 150)\<close> is false.
\<close>

theorem is_between_degenerate_witness:
  "DiffObject_init chain_store 1 2 3 = Inr triple_v2 \<and>
   DiffObject_last triple_v2 = Inr False \<and>
   obj_timestamp (chain_store 2) = obj_timestamp (chain_store 3) \<and>
   DiffObject_start_time chain_store triple_v2 = Inr 150 \<and>
   (150 :: 32 word) < end_of_time \<and>
   DiffObject_is_between chain_store triple_v2 150 (150 + 1) = Inr True \<and>
   DiffObject_is_between chain_store triple_v2 (150 - 1) 150 = Inr False"
proof -
  have h: "DiffObject_init chain_store 1 2 3 = Inr triple_v2"
    by (simp add: DiffObject_init_def chain_defs)
  have l: "DiffObject_last triple_v2 = Inr False"
    by (simp add: eval_defs chain_defs)
  have t: "obj_timestamp (chain_store 2) = obj_timestamp (chain_store 3)"
    by (simp add: chain_defs)
  have s: "DiffObject_start_time chain_store triple_v2 = Inr 150"
    by (simp add: eval_defs chain_defs)
  have n: "(150 :: 32 word) < end_of_time"
    by (simp add: end_of_time_def)
  from is_between_degenerate [OF h l t s] h l t s n
  show ?thesis by blast
qed

text \<open>
  Claim C10. \<^verbatim>\<open>is_between\<close> does not require \<open>from < to\<close>: there is a DiffObject
  built by the three-argument constructor and a timestamp \<open>t\<close> strictly between its
  \<^verbatim>\<open>start_time()\<close> and \<^verbatim>\<open>end_time()\<close> for which \<^verbatim>\<open>is_between(t, t)\<close> returns true,
  although the query interval from \<open>t\<close> to \<open>t\<close> is empty.
\<close>

theorem is_between_empty_query:
  "\<exists>(h :: 32 store) prv cur nxt d s e t.
     DiffObject_init h prv cur nxt = Inr d \<and>
     DiffObject_start_time h d = Inr s \<and> DiffObject_end_time h d = Inr e \<and>
     s < t \<and> t < e \<and> {t ..< t} = {} \<and> DiffObject_is_between h d t t = Inr True"
proof -
  have "DiffObject_init chain_store 1 1 2 = Inr triple_v1 \<and>
     DiffObject_start_time chain_store triple_v1 = Inr 100 \<and>
     DiffObject_end_time chain_store triple_v1 = Inr 150 \<and>
     (100 :: 32 word) < 120 \<and> (120 :: 32 word) < 150 \<and> {120 ..< (120 :: 32 word)} = {} \<and>
     DiffObject_is_between chain_store triple_v1 120 120 = Inr True"
    by (simp add: eval_defs chain_defs)
  then show ?thesis by blast
qed

section \<open>is\_visible\_at\<close>

text \<open>
  Claim C2. On every DiffObject built by the three-argument constructor, and for every
  timestamp \<open>t\<close>, \<^verbatim>\<open>is_visible_at(t)\<close> returns exactly
  \<open>s \<le> t \<and> e > t \<and> visible\<close>, where \<open>s\<close> and \<open>e\<close> are the results of
  \<^verbatim>\<open>start_time()\<close> and \<^verbatim>\<open>end_time()\<close> and \<open>visible\<close> is the flag of the current
  entity; in particular it returns false for every \<open>t\<close> when that flag is false.
\<close>

theorem is_visible_at_rule:
  assumes "DiffObject_init h prv cur nxt = Inr d"
  shows "\<exists>s e. DiffObject_start_time h d = Inr s \<and> DiffObject_end_time h d = Inr e \<and>
           DiffObject_curr d = Inr cur \<and>
           DiffObject_is_visible_at h d t = Inr (s \<le> t \<and> e > t \<and> obj_visible (h cur)) \<and>
           (\<not> obj_visible (h cur) \<longrightarrow> DiffObject_is_visible_at h d t = Inr False)"
proof -
  note ne = init_nonempty [OF assms]
  note s = start_time_init [OF assms]
  note e = end_time_init [OF assms]
  have c: "DiffObject_curr d = Inr cur"
    by (simp add: DiffObject_curr_def bind_r_def ne)
  have v: "DiffObject_is_visible_at h d t =
        Inr (obj_timestamp (h cur) \<le> t \<and>
             (if cur = nxt then end_of_time else obj_timestamp (h nxt)) > t \<and> obj_visible (h cur))"
    by (rule is_visible_at_eval [OF s e ne])
  from s e c v show ?thesis by simp
qed

text \<open>
  The deleted last version above: its interval, from 150 to the end of time, contains
  200, and it is not visible at 200.
\<close>

theorem is_visible_at_rule_witness:
  "DiffObject_init chain_store 2 3 3 = Inr triple_v3 \<and>
   DiffObject_start_time chain_store triple_v3 = Inr 150 \<and>
   DiffObject_end_time chain_store triple_v3 = Inr end_of_time \<and>
   \<not> obj_visible (chain_store 3) \<and>
   DiffObject_is_visible_at chain_store triple_v3 200 = Inr False"
proof -
  have h: "DiffObject_init chain_store 2 3 3 = Inr triple_v3"
    by (simp add: DiffObject_init_def chain_defs)
  have s: "DiffObject_start_time chain_store triple_v3 = Inr 150"
    by (simp add: DiffObject_start_time_def assert_nonempty_def bind_r_def chain_defs)
  have e: "DiffObject_end_time chain_store triple_v3 = Inr end_of_time"
    by (simp add: DiffObject_end_time_def DiffObject_last_def assert_nonempty_def
        bind_r_def chain_defs)
  have v: "\<not> obj_visible (chain_store 3)"
    by (simp add: chain_defs)
  from is_visible_at_rule [OF h, of 200] s e h v
  show ?thesis by auto
qed

text \<open>
  Claim C6. Timestamps do not decrease along a version chain: the next entity is not
  older than the current one. For every DiffObject built by the three-argument
  constructor from such entities, whose current entity is visible and for which
  \<^verbatim>\<open>start_time()\<close> and \<^verbatim>\<open>end_time()\<close> differ, \<^verbatim>\<open>is_visible_at(start_time())\<close>
  returns true; \<^verbatim>\<open>is_visible_at(end_time())\<close> returns false, whatever the order of the
  timestamps.
\<close>

theorem is_visible_at_boundaries:
  assumes "DiffObject_init h prv cur nxt = Inr d"
    and "obj_visible (h cur)"
    and "DiffObject_start_time h d = Inr s" and "DiffObject_end_time h d = Inr e"
    and "s \<noteq> e"
  shows "(obj_timestamp (h cur) \<le> obj_timestamp (h nxt) \<longrightarrow>
            DiffObject_is_visible_at h d s = Inr True) \<and>
         DiffObject_is_visible_at h d e = Inr False"
proof -
  note v = is_visible_at_eval [OF assms(3) assms(4) init_nonempty [OF assms(1)]]
  from assms(3) start_time_init [OF assms(1)] have s: "s = obj_timestamp (h cur)" by simp
  from assms(4) end_time_init [OF assms(1)]
  have e: "e = (if cur = nxt then end_of_time else obj_timestamp (h nxt))" by simp
  have lt: "s < e" if "obj_timestamp (h cur) \<le> obj_timestamp (h nxt)"
  proof (cases "cur = nxt")
    case True
    with e have "e = end_of_time" by simp
    with assms(5) show ?thesis using end_of_time_strict [of s] by simp
  next
    case False
    with e s that have "s \<le> e" by simp
    with assms(5) show ?thesis by simp
  qed
  from v assms(2) lt show ?thesis by simp
qed

text \<open>
  The first version above, created at 100 and followed by a version created at 150.
\<close>

theorem is_visible_at_boundaries_witness:
  "DiffObject_init chain_store 1 1 2 = Inr triple_v1 \<and>
   obj_visible (chain_store 1) \<and>
   DiffObject_start_time chain_store triple_v1 = Inr 100 \<and>
   DiffObject_end_time chain_store triple_v1 = Inr 150 \<and>
   (100 :: 32 word) \<noteq> 150 \<and>
   obj_timestamp (chain_store 1) \<le> obj_timestamp (chain_store 2) \<and>
   DiffObject_is_visible_at chain_store triple_v1 100 = Inr True \<and>
   DiffObject_is_visible_at chain_store triple_v1 150 = Inr False"
proof -
  have h: "DiffObject_init chain_store 1 1 2 = Inr triple_v1"
    by (simp add: DiffObject_init_def chain_defs)
  have v: "obj_visible (chain_store 1)"
    by (simp add: chain_defs)
  have s: "DiffObject_start_time chain_store triple_v1 = Inr 100"
    by (simp add: eval_defs chain_defs)
  have e: "DiffObject_end_time chain_store triple_v1 = Inr 150"
    by (simp add: eval_defs chain_defs)
  have ne: "(100 :: 32 word) \<noteq> 150" by simp
  have le: "obj_timestamp (chain_store 1) \<le> obj_timestamp (chain_store 2)"
    by (simp add: chain_defs)
  from is_visible_at_boundaries [OF h v s e ne] h v s e ne le
  show ?thesis by blast
qed

section \<open>end\_time\<close>

text \<open>
  Claim C3. On every DiffObject built by the three-argument constructor,
  \<^verbatim>\<open>end_time()\<close> returns the end of time if \<^verbatim>\<open>last()\<close> holds and the timestamp of
  the next entity otherwise. The end of time is the greatest timestamp: no timestamp lies
  above it, and every timestamp other than the sentinel itself lies strictly below it.
\<close>

theorem end_time_sentinel:
  assumes "DiffObject_init h prv cur nxt = Inr d"
  shows "(\<exists>l. DiffObject_last d = Inr l) \<and> DiffObject_next d = Inr nxt \<and>
         (DiffObject_last d = Inr True \<longrightarrow> DiffObject_end_time h d = Inr end_of_time) \<and>
         (DiffObject_last d = Inr False \<longrightarrow> DiffObject_end_time h d = Inr (obj_timestamp (h nxt))) \<and>
         (\<forall>t :: 'w::len Timestamp. t \<le> end_of_time \<and> (t \<noteq> end_of_time \<longrightarrow> t < end_of_time))"
proof -
  note ne = init_nonempty [OF assms]
  have n: "DiffObject_next d = Inr nxt"
    by (simp add: DiffObject_next_def bind_r_def ne)
  from n last_init [OF assms] end_time_init [OF assms] end_of_time_max end_of_time_strict
  show ?thesis by (auto simp del: word_order.extremum)
qed

text \<open>
  The last and the middle version above.
\<close>

theorem end_time_sentinel_witness:
  "DiffObject_init chain_store 2 3 3 = Inr triple_v3 \<and>
   DiffObject_last triple_v3 = Inr True \<and>
   DiffObject_end_time chain_store triple_v3 = Inr end_of_time \<and>
   DiffObject_init chain_store 1 2 3 = Inr triple_v2 \<and>
   DiffObject_last triple_v2 = Inr False \<and>
   DiffObject_end_time chain_store triple_v2 = Inr (obj_timestamp (chain_store 3)) \<and>
   obj_timestamp (chain_store 3) \<noteq> end_of_time \<and>
   obj_timestamp (chain_store 3) < end_of_time"
proof -
  have h3: "DiffObject_init chain_store 2 3 3 = Inr triple_v3"
    by (simp add: DiffObject_init_def chain_defs)
  have h2: "DiffObject_init chain_store 1 2 3 = Inr triple_v2"
    by (simp add: DiffObject_init_def chain_defs)
  have l3: "DiffObject_last triple_v3 = Inr True"
    by (simp add: DiffObject_last_def assert_nonempty_def bind_r_def chain_defs)
  have l2: "DiffObject_last triple_v2 = Inr False"
    by (simp add: DiffObject_last_def assert_nonempty_def bind_r_def chain_defs)
  have t: "obj_timestamp (chain_store 3) \<noteq> end_of_time"
    by (simp add: chain_defs end_of_time_def)
  from end_time_sentinel [OF h3] end_time_sentinel [OF h2] h3 h2 l3 l2 t
  show ?thesis by blast
qed

section \<open>Construction and the empty DiffObject\<close>

text \<open>
  Claim C7. The three-argument constructor aborts on one of its two assertions exactly
  when the three entities do not all have the same type and the same id; when they do,
  both assertions pass and the object built is not empty and holds the three addresses.
\<close>

theorem init_assertions:
  "((\<exists>f. DiffObject_init h prv cur nxt = Inl f) \<longleftrightarrow>
      \<not> (obj_type (h prv) = obj_type (h cur) \<and> obj_type (h cur) = obj_type (h nxt) \<and>
         obj_id (h prv) = obj_id (h cur) \<and> obj_id (h cur) = obj_id (h nxt))) \<and>
   (obj_type (h prv) = obj_type (h cur) \<and> obj_type (h cur) = obj_type (h nxt) \<and>
    obj_id (h prv) = obj_id (h cur) \<and> obj_id (h cur) = obj_id (h nxt) \<longrightarrow>
      (\<exists>d. DiffObject_init h prv cur nxt = Inr d \<and> \<not> DiffObject_empty d \<and>
           m_prev d = Some prv \<and> m_curr d = Some cur \<and> m_next d = Some nxt))"
  by (auto simp: DiffObject_init_def DiffObject_empty_def)

text \<open>
  The three versions of the chain above pass; two entities with the ids 17 and 18 fail
  the assertion on the ids.
\<close>

theorem init_assertions_witness:
  "obj_type (chain_store 1) = obj_type (chain_store 2) \<and>
   obj_type (chain_store 2) = obj_type (chain_store 3) \<and>
   obj_id (chain_store 1) = obj_id (chain_store 2) \<and>
   obj_id (chain_store 2) = obj_id (chain_store 3) \<and>
   DiffObject_init chain_store 1 2 3 = Inr triple_v2 \<and> \<not> DiffObject_empty triple_v2 \<and>
   obj_id (mixed_store 1) \<noteq> obj_id (mixed_store 2) \<and>
   DiffObject_init mixed_store 1 1 2 = Inl IdAssertion"
proof -
  have same: "obj_type (chain_store 1) = obj_type (chain_store 2) \<and>
      obj_type (chain_store 2) = obj_type (chain_store 3) \<and>
      obj_id (chain_store 1) = obj_id (chain_store 2) \<and>
      obj_id (chain_store 2) = obj_id (chain_store 3)"
    by (simp add: chain_defs)
  have differ: "obj_id (mixed_store 1) \<noteq> obj_id (mixed_store 2)"
    by (simp add: mixed_store_def entity_def)
  have f: "DiffObject_init mixed_store 1 1 2 = Inl IdAssertion"
    by (simp add: DiffObject_init_def mixed_store_def entity_def)
  have h: "DiffObject_init chain_store 1 2 3 = Inr triple_v2"
    by (simp add: DiffObject_init_def chain_defs)
  from init_assertions [of chain_store 1 2 3] same h
  have "\<not> DiffObject_empty triple_v2"
    by auto
  with same differ f h show ?thesis by simp
qed

text \<open>
  Claim C8. The default constructor builds an object for which \<^verbatim>\<open>empty()\<close> is true
  and on which every other member function fails its assertion; on an object built by the
  three-argument constructor \<^verbatim>\<open>empty()\<close> is false and every member function returns
  a value.
\<close>

theorem empty_precondition:
  "DiffObject_empty DiffObject_default \<and>
   DiffObject_prev DiffObject_default = Inl NonEmptyAssertion \<and>
   DiffObject_curr DiffObject_default = Inl NonEmptyAssertion \<and>
   DiffObject_next DiffObject_default = Inl NonEmptyAssertion \<and>
   DiffObject_first DiffObject_default = Inl NonEmptyAssertion \<and>
   DiffObject_last DiffObject_default = Inl NonEmptyAssertion \<and>
   DiffObject_type h DiffObject_default = Inl NonEmptyAssertion \<and>
   DiffObject_id h DiffObject_default = Inl NonEmptyAssertion \<and>
   DiffObject_version h DiffObject_default = Inl NonEmptyAssertion \<and>
   DiffObject_changeset h DiffObject_default = Inl NonEmptyAssertion \<and>
   DiffObject_start_time h DiffObject_default = Inl NonEmptyAssertion \<and>
   DiffObject_end_time h DiffObject_default = Inl NonEmptyAssertion \<and>
   DiffObject_is_between h DiffObject_default from to = Inl NonEmptyAssertion \<and>
   DiffObject_is_visible_at h DiffObject_default t = Inl NonEmptyAssertion \<and>
   (DiffObject_init h prv cur nxt = Inr d \<longrightarrow>
      \<not> DiffObject_empty d \<and>
      (\<exists>v. DiffObject_prev d = Inr v) \<and>
      (\<exists>v. DiffObject_curr d = Inr v) \<and>
      (\<exists>v. DiffObject_next d = Inr v) \<and>
      (\<exists>v. DiffObject_first d = Inr v) \<and>
      (\<exists>v. DiffObject_last d = Inr v) \<and>
      (\<exists>v. DiffObject_type h d = Inr v) \<and>
      (\<exists>v. DiffObject_id h d = Inr v) \<and>
      (\<exists>v. DiffObject_version h d = Inr v) \<and>
      (\<exists>v. DiffObject_changeset h d = Inr v) \<and>
      (\<exists>v. DiffObject_start_time h d = Inr v) \<and>
      (\<exists>v. DiffObject_end_time h d = Inr v) \<and>
      (\<exists>v. DiffObject_is_between h d from to = Inr v) \<and>
      (\<exists>v. DiffObject_is_visible_at h d t = Inr v))"
proof -
  have a: "assert_nonempty DiffObject_default = Inl NonEmptyAssertion"
    by (simp add: assert_nonempty_def DiffObject_default_def)
  have e: "DiffObject_empty DiffObject_default"
    by (simp add: DiffObject_empty_def DiffObject_default_def)
  have dflt: "DiffObject_prev DiffObject_default = Inl NonEmptyAssertion"
    "DiffObject_curr DiffObject_default = Inl NonEmptyAssertion"
    "DiffObject_next DiffObject_default = Inl NonEmptyAssertion"
    "DiffObject_first DiffObject_default = Inl NonEmptyAssertion"
    "DiffObject_last DiffObject_default = Inl NonEmptyAssertion"
    "DiffObject_type h DiffObject_default = Inl NonEmptyAssertion"
    "DiffObject_id h DiffObject_default = Inl NonEmptyAssertion"
    "DiffObject_version h DiffObject_default = Inl NonEmptyAssertion"
    "DiffObject_changeset h DiffObject_default = Inl NonEmptyAssertion"
    "DiffObject_start_time h DiffObject_default = Inl NonEmptyAssertion"
    "DiffObject_end_time h DiffObject_default = Inl NonEmptyAssertion"
    "DiffObject_is_between h DiffObject_default from to = Inl NonEmptyAssertion"
    "DiffObject_is_visible_at h DiffObject_default t = Inl NonEmptyAssertion"
    by (simp_all add: accessor_defs DiffObject_last_def DiffObject_start_time_def
        DiffObject_end_time_def DiffObject_is_between_def DiffObject_is_visible_at_def
        bind_r_def a)
  have built: "\<not> DiffObject_empty d \<and>
      (\<exists>v. DiffObject_prev d = Inr v) \<and>
      (\<exists>v. DiffObject_curr d = Inr v) \<and>
      (\<exists>v. DiffObject_next d = Inr v) \<and>
      (\<exists>v. DiffObject_first d = Inr v) \<and>
      (\<exists>v. DiffObject_last d = Inr v) \<and>
      (\<exists>v. DiffObject_type h d = Inr v) \<and>
      (\<exists>v. DiffObject_id h d = Inr v) \<and>
      (\<exists>v. DiffObject_version h d = Inr v) \<and>
      (\<exists>v. DiffObject_changeset h d = Inr v) \<and>
      (\<exists>v. DiffObject_start_time h d = Inr v) \<and>
      (\<exists>v. DiffObject_end_time h d = Inr v) \<and>
      (\<exists>v. DiffObject_is_between h d from to = Inr v) \<and>
      (\<exists>v. DiffObject_is_visible_at h d t = Inr v)"
    if i: "DiffObject_init h prv cur nxt = Inr d"
  proof -
    note ne = init_nonempty [OF i]
    note s = start_time_init [OF i]
    note en = end_time_init [OF i]
    have "\<not> DiffObject_empty d"
      using init_Inr [OF i] by (simp add: DiffObject_empty_def)
    moreover have "\<exists>v. DiffObject_is_between h d from to = Inr v"
      using is_between_eval [OF s en ne] by blast
    moreover have "\<exists>v. DiffObject_is_visible_at h d t = Inr v"
      using is_visible_at_eval [OF s en ne] by blast
    ultimately show ?thesis
      using s en last_init [OF i] by (simp add: accessor_defs bind_r_def ne)
  qed
  from e dflt built show ?thesis by blast
qed

text \<open>
  The middle version above.
\<close>

theorem empty_precondition_witness:
  "DiffObject_init chain_store 1 2 3 = Inr triple_v2 \<and>
   \<not> DiffObject_empty triple_v2 \<and>
   (\<exists>v. DiffObject_version chain_store triple_v2 = Inr v) \<and>
   (\<exists>v. DiffObject_is_between chain_store triple_v2 150 151 = Inr v) \<and>
   (\<exists>v. DiffObject_is_visible_at chain_store triple_v2 150 = Inr v)"
proof -
  have h: "DiffObject_init chain_store 1 2 3 = Inr triple_v2"
    by (simp add: DiffObject_init_def chain_defs)
  from empty_precondition [of chain_store 150 151 150 1 2 3 triple_v2] h
  show ?thesis by blast
qed

section \<open>The typed view\<close>

text \<open>
  Claim C9. A \<^verbatim>\<open>DiffObjectDerived<T>\<close> built from three references of type \<open>T\<close>
  has as its base the DiffObject built from the same three entities, so every member
  function it inherits returns what the base triple returns, and its own
  \<^verbatim>\<open>prev()\<close>, \<^verbatim>\<open>curr()\<close> and \<^verbatim>\<open>next()\<close> return the references it was built from:
  the addresses the base accessors return, typed \<open>T\<close>.
\<close>

theorem derived_same_as_base:
  assumes "DiffObjectDerived_init h prv cur nxt = Inr dd"
    and "DiffObject_init h (address prv) (address cur) (address nxt) = Inr d"
  shows "base dd = d \<and>
         DiffObject_first (base dd) = DiffObject_first d \<and>
         DiffObject_last (base dd) = DiffObject_last d \<and>
         DiffObject_type h (base dd) = DiffObject_type h d \<and>
         DiffObject_id h (base dd) = DiffObject_id h d \<and>
         DiffObject_version h (base dd) = DiffObject_version h d \<and>
         DiffObject_changeset h (base dd) = DiffObject_changeset h d \<and>
         DiffObject_start_time h (base dd) = DiffObject_start_time h d \<and>
         DiffObject_end_time h (base dd) = DiffObject_end_time h d \<and>
         DiffObject_is_between h (base dd) from to = DiffObject_is_between h d from to \<and>
         DiffObject_is_visible_at h (base dd) t = DiffObject_is_visible_at h d t \<and>
         DiffObjectDerived_prev dd = Inr prv \<and> DiffObject_prev d = Inr (address prv) \<and>
         DiffObjectDerived_curr dd = Inr cur \<and> DiffObject_curr d = Inr (address cur) \<and>
         DiffObjectDerived_next dd = Inr nxt \<and> DiffObject_next d = Inr (address nxt)"
proof -
  from assms have b: "base dd = d"
    by (auto simp: DiffObjectDerived_init_def bind_r_def)
  note ne = init_nonempty [OF assms(2)]
  have acc: "DiffObject_prev d = Inr (address prv)" "DiffObject_curr d = Inr (address cur)"
    "DiffObject_next d = Inr (address nxt)"
    by (simp_all add: accessor_defs bind_r_def ne)
  with b have "DiffObjectDerived_prev dd = Inr prv" "DiffObjectDerived_curr dd = Inr cur"
    "DiffObjectDerived_next dd = Inr nxt"
    by (simp_all add: DiffObjectDerived_prev_def DiffObjectDerived_curr_def
        DiffObjectDerived_next_def bind_r_def static_cast_def)
  with b acc show ?thesis by simp
qed

text \<open>
  A \<^verbatim>\<open>DiffWay\<close> for the middle version above.
\<close>

theorem derived_same_as_base_witness:
  "DiffObjectDerived_init chain_store (Ref 1) (Ref 2) (Ref 3) = Inr (DiffObjectDerived triple_v2 :: DiffWay) \<and>
   DiffObject_init chain_store (address (Ref 1 :: Way cref)) (address (Ref 2 :: Way cref)) (address (Ref 3 :: Way cref)) = Inr triple_v2 \<and>
   DiffObjectDerived_curr (DiffObjectDerived triple_v2 :: DiffWay) = Inr (Ref 2) \<and>
   DiffObject_curr triple_v2 = Inr 2"
proof -
  have hd: "DiffObjectDerived_init chain_store (Ref 1) (Ref 2) (Ref 3) =
      Inr (DiffObjectDerived triple_v2 :: DiffWay)"
    by (simp add: DiffObjectDerived_init_def DiffObject_init_def bind_r_def chain_defs)
  have hb: "DiffObject_init chain_store (address (Ref 1 :: Way cref))
      (address (Ref 2 :: Way cref)) (address (Ref 3 :: Way cref)) = Inr triple_v2"
    by (simp add: DiffObject_init_def chain_defs)
  from derived_same_as_base [OF hd hb] hd hb show ?thesis by simp
qed

end
